theory Spec2Isabelle
  imports Main "HOL-Library.Word"
begin

unbundle bit_operations_syntax

section \<open>The cascading session store of \<^verbatim>\<open>store.go\<close>\<close>

text \<open>
  The store keeps a session in up to three backends: the gorilla context of the current
  request, App Engine's memcache and App Engine's datastore. This theory embeds
  \<^verbatim>\<open>save\<close>, \<^verbatim>\<open>load\<close>, \<^verbatim>\<open>delete\<close>, \<^verbatim>\<open>New\<close> and \<^verbatim>\<open>Save\<close> of
  \<^verbatim>\<open>src/store.go\<close> as functions on an explicit world: the request's context, the two
  shared backends, the clock, the log and the cookies set on the response.
  \<^verbatim>\<open>Get\<close> (the session registry of gorilla) and \<^verbatim>\<open>SetMaxAge\<close> (which reconfigures the
  codecs) lie outside the cascade and are not embedded.
\<close>

subsection \<open>Values of the Go program\<close>

text \<open>
  A \<^verbatim>\<open>[]byte\<close> is either the nil slice (\<open>None\<close>) or a sequence of bytes: \<^verbatim>\<open>load\<close>
  tests \<^verbatim>\<open>value == nil\<close>, so the difference is part of the control flow.
  A \<^verbatim>\<open>time.Time\<close> is a number of nanoseconds. A \<^verbatim>\<open>time.Duration\<close> is a signed 64-bit
  number of nanoseconds; Go's \<^verbatim>\<open>int\<close> has 64 bits on App Engine.
\<close>

type_synonym byte = "8 word"
type_synonym bytes = "byte list option"
type_synonym time = int
type_synonym duration = int

definition len :: "bytes \<Rightarrow> int" where
  "len b = (case b of None \<Rightarrow> 0 | Some xs \<Rightarrow> int (length xs))"

text \<open>Two's complement wrap-around of a 64-bit signed integer.\<close>

definition wrap64 :: "int \<Rightarrow> int" where
  "wrap64 x = (x + 2 ^ 63) mod 2 ^ 64 - 2 ^ 63"

definition Second :: duration where
  "Second = 1000000000"

text \<open>\<^verbatim>\<open>time.Second * time.Duration(age)\<close>: the conversion and the product are both taken
  in 64 bits.\<close>

definition seconds :: "int \<Rightarrow> duration" where
  "seconds age = wrap64 (Second * wrap64 age)"

text \<open>\<^verbatim>\<open>t.Add(d)\<close>; \<^verbatim>\<open>time.Time\<close> holds far more than 64 bits of nanoseconds, so the sum is
  exact.\<close>

definition Add :: "time \<Rightarrow> duration \<Rightarrow> time" where
  "Add t d = t + d"

definition Before :: "time \<Rightarrow> time \<Rightarrow> bool" where
  "Before t u = (t < u)"

datatype error =
    ValueTooBigError
  | ErrCacheMiss
  | ErrNoSuchEntity
  | ErrNoCookie
  | TypeAssertionError
  | OtherError string

text \<open>
  \<open>ErrCacheMiss\<close> is \<^verbatim>\<open>memcache.ErrCacheMiss\<close>, \<open>ErrNoSuchEntity\<close> is
  \<^verbatim>\<open>datastore.ErrNoSuchEntity\<close>, \<open>ErrNoCookie\<close> is \<^verbatim>\<open>http.ErrNoCookie\<close>,
  \<open>TypeAssertionError\<close> is the run-time panic of a failed type assertion (it is an
  \<^verbatim>\<open>error\<close>, so the deferred \<^verbatim>\<open>r.(error)\<close> accepts it), and \<open>OtherError\<close> is any other
  error a collaborator reports.
\<close>

definition RequestBackend :: int where
  "RequestBackend = 1"

definition MemcacheBackend :: int where
  "MemcacheBackend = 2"

definition DatastoreBackend :: int where
  "DatastoreBackend = 4"

definition DistributedBackends :: int where
  "DistributedBackends = MemcacheBackend OR DatastoreBackend"

definition AllBackends :: int where
  "AllBackends = RequestBackend OR MemcacheBackend OR DatastoreBackend"

definition DefaultExpireSeconds :: int where
  "DefaultExpireSeconds = 86400 * 30"

definition MaxValueLength :: int where
  "MaxValueLength = 4096"

definition DefaultMaxAgeSeconds :: int where
  "DefaultMaxAgeSeconds = 60 * 20"

definition DefaultKeyPrefix :: string where
  "DefaultKeyPrefix = ''session.''"

record sessionKind =
  Value :: bytes
  ExpiresAt :: time

record requestItem =
  Value :: bytes
  ExpiresAt :: time

text \<open>\<^verbatim>\<open>memcache.Item\<close>, with the fields the store sets.\<close>

record Item =
  Key :: string
  Value :: bytes
  Expiration :: duration

text \<open>
  What the gorilla context holds under a key is an \<^verbatim>\<open>interface{}\<close>: a pointer to a
  \<^verbatim>\<open>requestItem\<close>, a \<^verbatim>\<open>requestItem\<close> itself, or a value of some other type. The
  dynamic type decides the type assertion in \<^verbatim>\<open>load\<close>.
\<close>

datatype ctxval =
    RequestItemPtr requestItem
  | RequestItemVal requestItem
  | ForeignVal string

text \<open>\<^verbatim>\<open>sessions.Options\<close> and \<^verbatim>\<open>sessions.Session\<close> of gorilla/sessions. The value
  mapping is an association list; a session made by \<^verbatim>\<open>New\<close> always has its options
  set, so \<open>Options\<close> is not a pointer here.\<close>

record Options =
  Path :: string
  Domain :: string
  MaxAge :: int
  Secure :: bool
  HttpOnly :: bool

record Session =
  ID :: string
  Values :: "(string \<times> string) list"
  Options :: Options
  IsNew :: bool
  name :: string

text \<open>
  Modelled from the spec: the \<^verbatim>\<open>SessionSerializer\<close> interface and \<^verbatim>\<open>GobSerializer\<close> are
  declared in a file of the package that is not under \<^verbatim>\<open>src/\<close>. The spec gives
  \<^verbatim>\<open>serialize(session) -> bytes\<close> and \<^verbatim>\<open>deserialize(bytes, session) -> error\<close>, and says
  that a failed deserialization populates nothing. A serializer is therefore a pair of
  functions, taken as a parameter of the store; a failed \<open>Deserialize\<close> leaves the
  session as it was.
\<close>

record SessionSerializer =
  Serialize :: "Session \<Rightarrow> error + bytes"
  Deserialize :: "bytes \<Rightarrow> Session \<Rightarrow> error + Session"

text \<open>The codecs of gorilla/securecookie, an external collaborator: \<^verbatim>\<open>EncodeMulti\<close> and
  \<^verbatim>\<open>DecodeMulti\<close> map a session name and a session ID or cookie value to a cookie value
  or session ID, or fail.\<close>

record Codecs =
  EncodeMulti :: "string \<Rightarrow> string \<Rightarrow> error + string"
  DecodeMulti :: "string \<Rightarrow> string \<Rightarrow> error + string"

record CascadeStore =
  backendTypes :: int
  maxLength :: int
  keyPrefix :: string
  serializer :: SessionSerializer
  Codecs :: Codecs
  Options :: Options
  DefaultMaxAge :: int

text \<open>\<^verbatim>\<open>http.Cookie\<close> as \<^verbatim>\<open>sessions.NewCookie\<close> builds it: name, value and the attributes
  taken from the options. An \<^verbatim>\<open>http.Request\<close> is read only for its cookies.\<close>

record Cookie =
  Name :: string
  Value :: string
  Attributes :: Options

record Request =
  Cookies :: "(string \<times> string) list"

datatype logline =
    Debugf string string
  | Warningf string string
  | Errorf string error

subsection \<open>The world outside the store\<close>

text \<open>
  The gorilla context of the request, memcache and the datastore are external services.
  They are modelled as finite maps. Each memcache and datastore operation can be made to
  fail: when the matching \<open>...Err\<close> field holds an error the operation reports it and
  changes nothing. A memcache entry remembers when it was set; it is visible while its
  expiration is zero (no expiry) or has not run out, which is memcache's native expiry.
  The datastore keeps an entity until it is deleted.
\<close>

record world =
  clock :: time
  reqctx :: "string \<rightharpoonup> ctxval"
  memcache :: "string \<rightharpoonup> Item \<times> time"
  datastore :: "string \<times> string \<rightharpoonup> sessionKind"
  memcacheSetErr :: "error option"
  memcacheGetErr :: "error option"
  memcacheDeleteErr :: "error option"
  datastorePutErr :: "error option"
  datastoreGetErr :: "error option"
  datastoreDeleteErr :: "error option"
  logs :: "logline list"
  response :: "Cookie list"

definition Now :: "world \<Rightarrow> time" where
  "Now w = clock w"

definition logf :: "logline \<Rightarrow> world \<Rightarrow> world" where
  "logf l w = w\<lparr>logs := logs w @ [l]\<rparr>"

definition gcontext_Set :: "string \<Rightarrow> ctxval \<Rightarrow> world \<Rightarrow> world" where
  "gcontext_Set key val w = w\<lparr>reqctx := (reqctx w)(key \<mapsto> val)\<rparr>"

definition gcontext_Get :: "string \<Rightarrow> world \<Rightarrow> ctxval option" where
  "gcontext_Get key w = reqctx w key"

definition gcontext_Delete :: "string \<Rightarrow> world \<Rightarrow> world" where
  "gcontext_Delete key w = w\<lparr>reqctx := (reqctx w)(key := None)\<rparr>"

definition memcache_visible :: "world \<Rightarrow> string \<Rightarrow> Item option" where
  "memcache_visible w key =
     (case memcache w key of
        None \<Rightarrow> None
      | Some (item, setAt) \<Rightarrow>
          if Expiration item = 0 \<or> clock w < setAt + Expiration item then Some item else None)"

definition memcache_Set :: "Item \<Rightarrow> world \<Rightarrow> error option \<times> world" where
  "memcache_Set item w =
     (case memcacheSetErr w of
        Some e \<Rightarrow> (Some e, w)
      | None \<Rightarrow> (None, w\<lparr>memcache := (memcache w)(Key item \<mapsto> (item, clock w))\<rparr>))"

definition memcache_Get :: "string \<Rightarrow> world \<Rightarrow> error + Item" where
  "memcache_Get key w =
     (case memcacheGetErr w of
        Some e \<Rightarrow> Inl e
      | None \<Rightarrow> (case memcache_visible w key of None \<Rightarrow> Inl ErrCacheMiss | Some item \<Rightarrow> Inr item))"

definition memcache_Delete :: "string \<Rightarrow> world \<Rightarrow> error option \<times> world" where
  "memcache_Delete key w =
     (case memcacheDeleteErr w of
        Some e \<Rightarrow> (Some e, w)
      | None \<Rightarrow>
          (case memcache_visible w key of None \<Rightarrow> Some ErrCacheMiss | Some item \<Rightarrow> None,
           w\<lparr>memcache := (memcache w)(key := None)\<rparr>))"

text \<open>\<^verbatim>\<open>datastore.NewKey(ctx, "Session", key, 0, nil)\<close>: a kind and a string ID.\<close>

definition NewKey :: "string \<Rightarrow> string \<Rightarrow> string \<times> string" where
  "NewKey kind stringID = (kind, stringID)"

definition datastore_Put :: "string \<times> string \<Rightarrow> sessionKind \<Rightarrow> world \<Rightarrow> error option \<times> world" where
  "datastore_Put k s w =
     (case datastorePutErr w of
        Some e \<Rightarrow> (Some e, w)
      | None \<Rightarrow> (None, w\<lparr>datastore := (datastore w)(k \<mapsto> s)\<rparr>))"

definition datastore_Get :: "string \<times> string \<Rightarrow> world \<Rightarrow> error + sessionKind" where
  "datastore_Get k w =
     (case datastoreGetErr w of
        Some e \<Rightarrow> Inl e
      | None \<Rightarrow> (case datastore w k of None \<Rightarrow> Inl ErrNoSuchEntity | Some s \<Rightarrow> Inr s))"

definition datastore_Delete :: "string \<times> string \<Rightarrow> world \<Rightarrow> error option \<times> world" where
  "datastore_Delete k w =
     (case datastoreDeleteErr w of
        Some e \<Rightarrow> (Some e, w)
      | None \<Rightarrow> (None, w\<lparr>datastore := (datastore w)(k := None)\<rparr>))"

text \<open>\<^verbatim>\<open>r.Cookie(name)\<close>, \<^verbatim>\<open>sessions.NewSession\<close>, \<^verbatim>\<open>sessions.NewCookie\<close> and
  \<^verbatim>\<open>http.SetCookie\<close>.\<close>

definition Cookie_of :: "Request \<Rightarrow> string \<Rightarrow> error + string" where
  "Cookie_of r nm = (case map_of (Cookies r) nm of None \<Rightarrow> Inl ErrNoCookie | Some v \<Rightarrow> Inr v)"

definition NewSession :: "string \<Rightarrow> Session" where
  "NewSession nm =
     \<lparr>ID = [], Values = [],
      Options = \<lparr>Path = [], Domain = [], MaxAge = 0, Secure = False, HttpOnly = False\<rparr>,
      IsNew = False, name = nm\<rparr>"

definition NewCookie :: "string \<Rightarrow> string \<Rightarrow> Options \<Rightarrow> Cookie" where
  "NewCookie nm val opts = \<lparr>Name = nm, Value = val, Attributes = opts\<rparr>"

definition SetCookie :: "Cookie \<Rightarrow> world \<Rightarrow> world" where
  "SetCookie c w = w\<lparr>response := response w @ [c]\<rparr>"

subsection \<open>Construction and configuration\<close>

definition NewCascadeStore :: "int \<Rightarrow> SessionSerializer \<Rightarrow> Codecs \<Rightarrow> CascadeStore" where
  "NewCascadeStore bts gob codecs =
     \<lparr>backendTypes = bts,
      maxLength = MaxValueLength,
      keyPrefix = DefaultKeyPrefix,
      serializer = gob,
      Codecs = codecs,
      Options = \<lparr>Path = ''/'', Domain = [], MaxAge = DefaultExpireSeconds,
                 Secure = False, HttpOnly = False\<rparr>,
      DefaultMaxAge = DefaultMaxAgeSeconds\<rparr>"

definition SetMaxLength :: "int \<Rightarrow> CascadeStore \<Rightarrow> CascadeStore" where
  "SetMaxLength l cs = (if l \<ge> 0 then cs\<lparr>maxLength := l\<rparr> else cs)"

definition SetKeyPrefix :: "string \<Rightarrow> CascadeStore \<Rightarrow> CascadeStore" where
  "SetKeyPrefix p cs = cs\<lparr>keyPrefix := p\<rparr>"

definition SetSerializer :: "SessionSerializer \<Rightarrow> CascadeStore \<Rightarrow> CascadeStore" where
  "SetSerializer ss cs = cs\<lparr>serializer := ss\<rparr>"

subsection \<open>Panics and deferred recovery\<close>

text \<open>
  \<^verbatim>\<open>save\<close>, \<^verbatim>\<open>load\<close> and \<^verbatim>\<open>delete\<close> abort with \<^verbatim>\<open>panic(err)\<close> and recover in a deferred
  function. The deferred function declares a variable of its own
  (\<^verbatim>\<open>err := r.(error)\<close>) and logs it, so after a recovered panic the function returns
  its named results as they stood when the panic was raised. A step of a function body
  therefore either goes on with the local state, or panics with a value and the local
  state at that point.
\<close>

datatype 'a flow = Next 'a | Panic error 'a

fun andThen :: "'a flow \<Rightarrow> ('a \<Rightarrow> 'a flow) \<Rightarrow> 'a flow" where
  "andThen (Next a) f = f a"
| "andThen (Panic r a) f = Panic r a"

subsection \<open>\<^verbatim>\<open>delete\<close>\<close>

text \<open>The local state of \<^verbatim>\<open>delete\<close> and \<^verbatim>\<open>save\<close> is the world; the named result
  \<^verbatim>\<open>err\<close> of \<^verbatim>\<open>delete\<close> is never assigned, every \<^verbatim>\<open>err\<close> in its body is a new variable
  of an \<^verbatim>\<open>if\<close> statement.\<close>

definition delete_request :: "CascadeStore \<Rightarrow> string \<Rightarrow> world \<Rightarrow> world flow" where
  "delete_request cs key w =
     (if (backendTypes cs AND RequestBackend) > 0
      then Next (gcontext_Delete key (logf (Debugf ''Removing session from Request: [%s]'' key) w))
      else Next w)"

definition delete_memcache :: "CascadeStore \<Rightarrow> string \<Rightarrow> world \<Rightarrow> world flow" where
  "delete_memcache cs key w =
     (if (backendTypes cs AND MemcacheBackend) > 0
      then (case memcache_Delete key (logf (Debugf ''Removing session from Memcache: [%s]'' key) w) of
              (None, w') \<Rightarrow> Next w'
            | (Some e, w') \<Rightarrow>
                if e = ErrCacheMiss
                then Next (logf (Warningf ''Tried and failed to remove old session from Memcache: [%s]'' key) w')
                else Panic e w')
      else Next w)"

definition delete_datastore :: "CascadeStore \<Rightarrow> string \<Rightarrow> world \<Rightarrow> world flow" where
  "delete_datastore cs key w =
     (if (backendTypes cs AND DatastoreBackend) > 0
      then (case datastore_Delete (NewKey ''Session'' key)
                   (logf (Debugf ''Removing session from Datastore: [%s]'' key) w) of
              (None, w') \<Rightarrow> Next w'
            | (Some e, w') \<Rightarrow>
                Next (logf (Warningf ''Tried and failed to remove old session from Datastore: [%s]'' key) w'))
      else Next w)"

definition delete :: "CascadeStore \<Rightarrow> Session \<Rightarrow> world \<Rightarrow> error option \<times> world" where
  "delete cs session w =
     (let key = keyPrefix cs @ ID session
      in case andThen (andThen (delete_request cs key
                                  (logf (Debugf ''Deleting session: [%s]'' (ID session)) w))
                         (delete_memcache cs key))
                (delete_datastore cs key) of
           Next w' \<Rightarrow> (None, w')
         | Panic r w' \<Rightarrow> (None, logf (Errorf ''Could not delete session: %s'' r) w'))"

subsection \<open>\<^verbatim>\<open>save\<close>\<close>

text \<open>
  The named result \<^verbatim>\<open>err\<close> of \<^verbatim>\<open>save\<close> is assigned once, by
  \<^verbatim>\<open>serialized, err = cs.serializer.Serialize(session)\<close>. The first component of the
  local state is that variable.
\<close>

definition save_request :: "CascadeStore \<Rightarrow> string \<Rightarrow> bytes \<Rightarrow> time \<Rightarrow> world \<Rightarrow> world flow" where
  "save_request cs key serialized expiresAt w =
     (if (backendTypes cs AND RequestBackend) > 0
      then Next (gcontext_Set key
                   (RequestItemPtr \<lparr>requestItem.Value = serialized, requestItem.ExpiresAt = expiresAt\<rparr>)
                   (logf (Debugf ''Writing session to Request: [%s]'' key) w))
      else Next w)"

definition save_memcache :: "CascadeStore \<Rightarrow> string \<Rightarrow> bytes \<Rightarrow> duration \<Rightarrow> world \<Rightarrow> world flow" where
  "save_memcache cs key serialized expires w =
     (if (backendTypes cs AND MemcacheBackend) > 0
      then (case memcache_Set \<lparr>Key = key, Value = serialized, Expiration = expires\<rparr>
                   (logf (Debugf ''Writing session to Memcache: [%s]'' key) w) of
              (None, w') \<Rightarrow> Next w'
            | (Some e, w') \<Rightarrow> Panic e w')
      else Next w)"

definition save_datastore :: "CascadeStore \<Rightarrow> string \<Rightarrow> bytes \<Rightarrow> time \<Rightarrow> world \<Rightarrow> world flow" where
  "save_datastore cs key serialized expiresAt w =
     (if (backendTypes cs AND DatastoreBackend) > 0
      then (case datastore_Put (NewKey ''Session'' key)
                   \<lparr>sessionKind.Value = serialized, sessionKind.ExpiresAt = expiresAt\<rparr>
                   (logf (Debugf ''Writing session to Datastore: [%s]'' key) w) of
              (None, w') \<Rightarrow> Next w'
            | (Some e, w') \<Rightarrow> Panic e w')
      else Next w)"

definition effective_age :: "CascadeStore \<Rightarrow> Session \<Rightarrow> int" where
  "effective_age cs session =
     (let age = MaxAge (Session.Options session)
      in if age = 0 then DefaultMaxAge cs else age)"

definition save_body :: "CascadeStore \<Rightarrow> Session \<Rightarrow> world \<Rightarrow> (error option \<times> world) flow" where
  "save_body cs session w =
     (let w1 = logf (Debugf ''Saving session: [%s]'' (ID session)) w;
          key = keyPrefix cs @ ID session
      in case Serialize (serializer cs) session of
           Inl e \<Rightarrow> Panic e (Some e, w1)
         | Inr serialized \<Rightarrow>
             (if maxLength cs \<noteq> 0 \<and> len serialized > maxLength cs
              then Panic ValueTooBigError (None, w1)
              else
                (let age = effective_age cs session;
                     expires = seconds age;
                     expiresAt = Add (Now w1) expires
                 in (case andThen (andThen (save_request cs key serialized expiresAt w1)
                                     (save_memcache cs key serialized expires))
                            (save_datastore cs key serialized expiresAt) of
                       Next w' \<Rightarrow> Next (None, w')
                     | Panic r w' \<Rightarrow> Panic r (None, w')))))"

definition save :: "CascadeStore \<Rightarrow> Session \<Rightarrow> world \<Rightarrow> error option \<times> world" where
  "save cs session w =
     (case save_body cs session w of
        Next (err, w') \<Rightarrow> (None, w')
      | Panic r (err, w') \<Rightarrow> (err, logf (Errorf ''Could not save session: %s'' r) w'))"

subsection \<open>\<^verbatim>\<open>load\<close>\<close>

text \<open>
  The local state of \<^verbatim>\<open>load\<close>: the slice \<^verbatim>\<open>value\<close>, the named result \<^verbatim>\<open>err\<close> (assigned
  only by \<^verbatim>\<open>item, err = memcache.Get(ctx, key)\<close>) and the world. The named result
  \<^verbatim>\<open>success\<close> is false until the final assignment. The three blocks of the body that
  start with \<^verbatim>\<open>if value == nil && ...\<close> are \<open>load_request\<close>, \<open>load_memcache\<close> and
  \<open>load_datastore\<close>; \<^verbatim>\<open>now\<close> is read once, before the first of them.
\<close>

type_synonym load_state = "bytes \<times> error option \<times> world"

definition load_request :: "CascadeStore \<Rightarrow> string \<Rightarrow> time \<Rightarrow> load_state \<Rightarrow> load_state flow" where
  "load_request cs key now st =
     (case st of (value, err, w) \<Rightarrow>
        if value = None \<and> (backendTypes cs AND RequestBackend) > 0
        then (case gcontext_Get key w of
                None \<Rightarrow> Next st
              | Some (RequestItemVal item) \<Rightarrow>
                  if Before now (requestItem.ExpiresAt item)
                  then Next (requestItem.Value item, err,
                             logf (Debugf ''Found session in request: [%s]'' key) w)
                  else Next (value, err, gcontext_Delete key w)
              | Some itemRaw \<Rightarrow> Panic TypeAssertionError st)
        else Next st)"

definition load_memcache :: "CascadeStore \<Rightarrow> string \<Rightarrow> load_state \<Rightarrow> load_state flow" where
  "load_memcache cs key st =
     (case st of (value, err, w) \<Rightarrow>
        if value = None \<and> (backendTypes cs AND MemcacheBackend) > 0
        then (case memcache_Get key w of
                Inl e \<Rightarrow>
                  if e = ErrCacheMiss
                  then Next (value, Some e,
                             logf (Debugf ''Could not find session in Memcache: [%s]'' key) w)
                  else Panic e (value, Some e, w)
              | Inr item \<Rightarrow>
                  Next (Item.Value item, None,
                        logf (Debugf ''Found session in Memcache: [%s]'' key) w))
        else Next st)"

definition load_datastore :: "CascadeStore \<Rightarrow> Session \<Rightarrow> string \<Rightarrow> time \<Rightarrow> load_state \<Rightarrow> load_state flow" where
  "load_datastore cs session key now st =
     (case st of (value, err, w) \<Rightarrow>
        if value = None \<and> (backendTypes cs AND DatastoreBackend) > 0
        then (case datastore_Get (NewKey ''Session'' key) w of
                Inl e \<Rightarrow>
                  if e = ErrNoSuchEntity
                  then Next (value, err,
                             logf (Debugf ''Could not find session in Datastore: [%s]'' key) w)
                  else Panic e st
              | Inr s \<Rightarrow>
                  if Before now (sessionKind.ExpiresAt s)
                  then Next (sessionKind.Value s, err,
                             logf (Debugf ''Found session in Datastore: [%s]'' key) w)
                  else (case delete cs session w of
                          (None, w') \<Rightarrow> Next (value, err, w')
                        | (Some e, w') \<Rightarrow> Panic e (value, err, w')))
        else Next st)"

text \<open>The search after its first block, after its second block, and as a whole.\<close>

definition load_after_request :: "CascadeStore \<Rightarrow> Session \<Rightarrow> world \<Rightarrow> load_state flow" where
  "load_after_request cs session w =
     (let w1 = logf (Debugf ''Loading session: [%s]'' (ID session)) w;
          key = keyPrefix cs @ ID session;
          now = Now w1
      in load_request cs key now (None, None, w1))"

definition load_after_memcache :: "CascadeStore \<Rightarrow> Session \<Rightarrow> world \<Rightarrow> load_state flow" where
  "load_after_memcache cs session w =
     andThen (load_after_request cs session w) (load_memcache cs (keyPrefix cs @ ID session))"

definition load_search :: "CascadeStore \<Rightarrow> Session \<Rightarrow> world \<Rightarrow> load_state flow" where
  "load_search cs session w =
     (let w1 = logf (Debugf ''Loading session: [%s]'' (ID session)) w;
          key = keyPrefix cs @ ID session;
          now = Now w1
      in andThen (load_after_memcache cs session w) (load_datastore cs session key now))"

definition load :: "CascadeStore \<Rightarrow> Session \<Rightarrow> world \<Rightarrow> (bool \<times> error option) \<times> Session \<times> world" where
  "load cs session w =
     (case load_search cs session w of
        Panic r (value, err, w') \<Rightarrow>
          ((False, err), session, logf (Errorf ''Could not load session: %s'' r) w')
      | Next (value, err, w') \<Rightarrow>
          if value \<noteq> None
          then (case Deserialize (serializer cs) value session of
                  Inl e \<Rightarrow> ((False, err), session, logf (Errorf ''Could not load session: %s'' e) w')
                | Inr session' \<Rightarrow> ((True, None), session', w'))
          else ((False, None), session, w'))"

subsection \<open>The facade: \<^verbatim>\<open>New\<close> and \<^verbatim>\<open>Save\<close>\<close>

text \<open>
  \<^verbatim>\<open>New\<close> returns the session and the outer \<^verbatim>\<open>err\<close>, which only
  \<^verbatim>\<open>securecookie.DecodeMulti\<close> assigns; the results of \<^verbatim>\<open>cs.load\<close> are bound to new
  variables of the inner block.
\<close>

definition New :: "CascadeStore \<Rightarrow> Request \<Rightarrow> string \<Rightarrow> world \<Rightarrow> (Session \<times> error option) \<times> world" where
  "New cs r nm w =
     (let session = (NewSession nm)\<lparr>Session.Options := CascadeStore.Options cs, IsNew := True\<rparr>
      in case Cookie_of r nm of
           Inl errCookie \<Rightarrow> ((session, None), w)
         | Inr c \<Rightarrow>
             (case DecodeMulti (Codecs cs) nm c of
                Inl e \<Rightarrow> ((session, Some e), w)
              | Inr sid \<Rightarrow>
                  (case load cs (session\<lparr>ID := sid\<rparr>) w of
                     ((ok, lerr), session', w') \<Rightarrow>
                       ((session'\<lparr>IsNew := \<not> (lerr = None \<and> ok)\<rparr>, None), w'))))"

text \<open>
  \<^verbatim>\<open>Save\<close>. The random session ID
  (\<^verbatim>\<open>strings.TrimRight(base32...EncodeToString(securecookie.GenerateRandomKey(32)), "=")\<close>)
  is an input, \<open>freshID\<close>.
\<close>

definition Save :: "CascadeStore \<Rightarrow> string \<Rightarrow> Session \<Rightarrow> world \<Rightarrow> error option \<times> Session \<times> world" where
  "Save cs freshID session w =
     (if MaxAge (Session.Options session) < 0
      then (case delete cs session w of
              (Some e, w') \<Rightarrow> (Some e, session, w')
            | (None, w') \<Rightarrow>
                (None, session,
                 SetCookie (NewCookie (name session) [] (Session.Options session)) w'))
      else
        (let session1 = (if ID session = [] then session\<lparr>ID := freshID\<rparr> else session)
         in (case save cs session1 w of
               (Some e, w') \<Rightarrow> (Some e, session1, w')
             | (None, w') \<Rightarrow>
                 (case EncodeMulti (Codecs cs) (name session1) (ID session1) of
                    Inl e \<Rightarrow> (Some e, session1, w')
                  | Inr encoded \<Rightarrow>
                      (None, session1,
                       SetCookie (NewCookie (name session1) encoded (Session.Options session1)) w')))))"

subsection \<open>Test doubles\<close>

text \<open>
  Concrete collaborators for the worked examples: a serializer that knows one payload
  and its encoding, a serializer that always fails, codecs that prefix the session ID
  with a tag, a store built by \<open>NewCascadeStore\<close>, a session and an empty world at
  time \<open>1000\<close>.
\<close>

definition stubSerializer :: "(string \<times> string) list \<Rightarrow> bytes \<Rightarrow> SessionSerializer" where
  "stubSerializer vals bs =
     \<lparr>Serialize = (\<lambda>s. if Values s = vals then Inr bs
                        else Inl (OtherError ''serializer: unknown payload'')),
      Deserialize = (\<lambda>b s. if b = bs then Inr (s\<lparr>Values := vals\<rparr>)
                            else Inl (OtherError ''serializer: unknown encoding''))\<rparr>"

definition failingSerializer :: SessionSerializer where
  "failingSerializer =
     \<lparr>Serialize = (\<lambda>s. Inl (OtherError ''serializer: cannot encode'')),
      Deserialize = (\<lambda>b s. Inl (OtherError ''serializer: cannot decode''))\<rparr>"

definition stubCodecs :: Codecs where
  "stubCodecs =
     \<lparr>EncodeMulti = (\<lambda>nm sid. Inr (''signed:'' @ sid)),
      DecodeMulti = (\<lambda>nm v. if take 7 v = ''signed:'' then Inr (drop 7 v)
                             else Inl (OtherError ''securecookie: the value is not valid''))\<rparr>"

definition aliceValues :: "(string \<times> string) list" where
  "aliceValues = [(''user'', ''alice'')]"

definition aliceBytes :: bytes where
  "aliceBytes = Some [1, 2, 3, 4, 5]"

definition aliceStore :: "int \<Rightarrow> CascadeStore" where
  "aliceStore bts = NewCascadeStore bts (stubSerializer aliceValues aliceBytes) stubCodecs"

definition aliceSession :: Session where
  "aliceSession =
     \<lparr>ID = ''ABC'', Values = aliceValues,
      Options = \<lparr>Path = ''/'', Domain = [], MaxAge = 0, Secure = False, HttpOnly = False\<rparr>,
      IsNew = True, name = ''sid''\<rparr>"

definition emptySession :: Session where
  "emptySession = aliceSession\<lparr>Values := []\<rparr>"

definition world0 :: world where
  "world0 =
     \<lparr>clock = 1000, reqctx = Map.empty, memcache = Map.empty, datastore = Map.empty,
      memcacheSetErr = None, memcacheGetErr = None, memcacheDeleteErr = None,
      datastorePutErr = None, datastoreGetErr = None, datastoreDeleteErr = None,
      logs = [], response = []\<rparr>"

definition logoutSession :: Session where
  "logoutSession =
     aliceSession\<lparr>Session.Options := (Session.Options aliceSession)\<lparr>MaxAge := - 1\<rparr>\<rparr>"

definition longLivedSession :: Session where
  "longLivedSession =
     aliceSession\<lparr>Session.Options := (Session.Options aliceSession)\<lparr>MaxAge := 9223372037\<rparr>\<rparr>"

definition memcacheDown :: error where
  "memcacheDown = OtherError ''memcache: server error''"

definition datastoreDown :: error where
  "datastoreDown = OtherError ''datastore: timeout''"

text \<open>A world in which memcache holds an entry whose expiration has run out and the
  datastore holds a record that expired at time \<open>500\<close>.\<close>

definition expiredWorld :: world where
  "expiredWorld =
     world0\<lparr>memcache := [''session.ABC'' \<mapsto>
                (\<lparr>Key = ''session.ABC'', Value = aliceBytes, Expiration = 500\<rparr>, 0)],
            datastore := [(''Session'', ''session.ABC'') \<mapsto>
                \<lparr>sessionKind.Value = aliceBytes, sessionKind.ExpiresAt = 500\<rparr>]\<rparr>"

section \<open>Properties\<close>

lemmas backend_defs =
  gcontext_Set_def gcontext_Get_def gcontext_Delete_def
  memcache_Set_def memcache_Get_def memcache_Delete_def memcache_visible_def
  datastore_Put_def datastore_Get_def datastore_Delete_def NewKey_def
  logf_def Now_def Add_def Before_def

lemmas mask_defs = RequestBackend_def MemcacheBackend_def DatastoreBackend_def

lemmas delete_defs = delete_def delete_request_def delete_memcache_def delete_datastore_def

lemmas save_defs = save_def save_body_def save_request_def save_memcache_def save_datastore_def

lemmas load_defs = load_def load_search_def load_after_memcache_def load_after_request_def
  load_request_def load_memcache_def load_datastore_def

lemmas fixture_defs =
  aliceStore_def NewCascadeStore_def stubSerializer_def stubCodecs_def
  aliceValues_def aliceBytes_def aliceSession_def emptySession_def world0_def
  MaxValueLength_def DefaultKeyPrefix_def DefaultMaxAgeSeconds_def DefaultExpireSeconds_def
  seconds_def wrap64_def Second_def effective_age_def len_def

subsection \<open>\<^verbatim>\<open>delete\<close> never reports an error\<close>

text \<open>The named result of \<^verbatim>\<open>delete\<close> is never assigned, so whatever happens in the
  cascade the caller receives nil.\<close>

lemma delete_err: "fst (delete cs session w) = None"
  by (simp add: delete_defs Let_def split: flow.split prod.split option.split)

lemma delete_memcache_failure_logged:
  assumes "(backendTypes cs AND MemcacheBackend) > 0"
    and "memcacheDeleteErr w = Some e" and "e \<noteq> ErrCacheMiss"
  shows "Errorf ''Could not delete session: %s'' e \<in> set (logs (snd (delete cs session w)))"
  using assms by (simp add: delete_defs backend_defs Let_def)

lemma delete_datastore_failure_logged:
  assumes "(backendTypes cs AND DatastoreBackend) > 0"
    and "datastoreDeleteErr w = Some e"
    and "(backendTypes cs AND MemcacheBackend) > 0 \<longrightarrow>
           memcacheDeleteErr w = None \<or> memcacheDeleteErr w = Some ErrCacheMiss"
  shows "Warningf ''Tried and failed to remove old session from Datastore: [%s]''
           (keyPrefix cs @ ID session) \<in> set (logs (snd (delete cs session w)))"
  using assms by (auto simp add: delete_defs backend_defs Let_def split: option.splits)

lemma Save_logout:
  assumes "MaxAge (Session.Options session) < 0"
  shows "Save cs freshID session w =
           (None, session,
            SetCookie (NewCookie (name session) [] (Session.Options session))
              (snd (delete cs session w)))"
proof -
  obtain e w' where d: "delete cs session w = (e, w')"
    by (cases "delete cs session w")
  with delete_err [of cs session w] have "e = None" by simp
  with d assms show ?thesis by (simp add: Save_def)
qed

text \<open>
  C10. For every input the delete cascade returns a nil error: a Memcache delete error
  other than a cache miss is logged by the deferred function, a Datastore delete error
  (when the cascade gets that far) is logged as a warning, and neither is returned.
  Hence the logout branch of \<^verbatim>\<open>Save\<close> (negative max-age) always sets the cookie with the
  empty value and the session's options, and returns nil.
\<close>

theorem delete_never_returns_error:
  "fst (delete cs session w) = None \<and>
   ((backendTypes cs AND MemcacheBackend) > 0 \<and> memcacheDeleteErr w = Some e \<and> e \<noteq> ErrCacheMiss
      \<longrightarrow> Errorf ''Could not delete session: %s'' e \<in> set (logs (snd (delete cs session w)))) \<and>
   ((backendTypes cs AND DatastoreBackend) > 0 \<and> datastoreDeleteErr w = Some e' \<and>
    ((backendTypes cs AND MemcacheBackend) > 0 \<longrightarrow>
       memcacheDeleteErr w = None \<or> memcacheDeleteErr w = Some ErrCacheMiss)
      \<longrightarrow> Warningf ''Tried and failed to remove old session from Datastore: [%s]''
            (keyPrefix cs @ ID session) \<in> set (logs (snd (delete cs session w)))) \<and>
   (MaxAge (Session.Options session) < 0
      \<longrightarrow> Save cs freshID session w =
            (None, session,
             SetCookie (NewCookie (name session) [] (Session.Options session))
               (snd (delete cs session w))))"
  using delete_err [of cs session w]
    delete_memcache_failure_logged [of cs w e session]
    delete_datastore_failure_logged [of cs w e' session]
    Save_logout [of session cs freshID w]
  by blast

theorem delete_never_returns_error_witness:
  "fst (delete (aliceStore 6) logoutSession
          (world0\<lparr>memcacheDeleteErr := Some (OtherError ''memcache: server error'')\<rparr>)) = None \<and>
   Errorf ''Could not delete session: %s'' (OtherError ''memcache: server error'')
     \<in> set (logs (snd (delete (aliceStore 6) logoutSession
          (world0\<lparr>memcacheDeleteErr := Some (OtherError ''memcache: server error'')\<rparr>)))) \<and>
   Warningf ''Tried and failed to remove old session from Datastore: [%s]'' ''session.ABC''
     \<in> set (logs (snd (delete (aliceStore 6) logoutSession
          (world0\<lparr>datastoreDeleteErr := Some (OtherError ''datastore: timeout'')\<rparr>)))) \<and>
   fst (Save (aliceStore 6) ''FRESH'' logoutSession
          (world0\<lparr>memcacheDeleteErr := Some (OtherError ''memcache: server error'')\<rparr>)) = None \<and>
   response (snd (snd (Save (aliceStore 6) ''FRESH'' logoutSession
          (world0\<lparr>memcacheDeleteErr := Some (OtherError ''memcache: server error'')\<rparr>)))) =
     [\<lparr>Name = ''sid'', Value = [],
       Attributes = \<lparr>Path = ''/'', Domain = [], MaxAge = - 1, Secure = False, HttpOnly = False\<rparr>\<rparr>]"
  using delete_never_returns_error
      [of "aliceStore 6" logoutSession
          "world0\<lparr>memcacheDeleteErr := Some (OtherError ''memcache: server error'')\<rparr>"
          "OtherError ''memcache: server error''" "OtherError ''datastore: timeout''" "''FRESH''"]
    delete_never_returns_error
      [of "aliceStore 6" logoutSession
          "world0\<lparr>datastoreDeleteErr := Some (OtherError ''datastore: timeout'')\<rparr>"
          "OtherError ''memcache: server error''" "OtherError ''datastore: timeout''" "''FRESH''"]
  by (simp add: fixture_defs logoutSession_def SetCookie_def NewCookie_def mask_defs delete_defs backend_defs Let_def)

subsection \<open>The size limit\<close>

text \<open>
  C2. For every session whose serialized size exceeds the configured max length (max
  length not 0), the claim says that \<^verbatim>\<open>save\<close> returns \<^verbatim>\<open>ValueTooBigError\<close> and writes no
  tier. The code writes no tier, and it panics with \<^verbatim>\<open>ValueTooBigError\<close>; but the
  deferred function only logs the recovered value, and the named result still holds
  the nil that \<^verbatim>\<open>Serialize\<close> returned. So \<^verbatim>\<open>save\<close> returns nil: the world after the
  call is the world before it with two more log lines.
\<close>

theorem save_too_big_returns_nil:
  assumes "Serialize (serializer cs) session = Inr serialized"
    and "maxLength cs \<noteq> 0" and "len serialized > maxLength cs"
  shows "save cs session w =
           (None, logf (Errorf ''Could not save session: %s'' ValueTooBigError)
                    (logf (Debugf ''Saving session: [%s]'' (ID session)) w))"
  using assms by (simp add: save_def save_body_def Let_def)

theorem save_too_big_returns_nil_witness:
  "Serialize (serializer (SetMaxLength 4 (aliceStore 7))) aliceSession = Inr aliceBytes \<and>
   maxLength (SetMaxLength 4 (aliceStore 7)) = 4 \<and>
   len aliceBytes = 5 \<and>
   save (SetMaxLength 4 (aliceStore 7)) aliceSession world0 =
     (None, world0\<lparr>logs := [Debugf ''Saving session: [%s]'' ''ABC'',
                             Errorf ''Could not save session: %s'' ValueTooBigError]\<rparr>)"
  using save_too_big_returns_nil
      [of "SetMaxLength 4 (aliceStore 7)" aliceSession aliceBytes world0]
  by (simp add: fixture_defs SetMaxLength_def logf_def)

subsection \<open>The request tier\<close>

text \<open>
  C8. The claim: when the request tier holds a record for the key that has not expired,
  \<^verbatim>\<open>load\<close> has a hit. \<^verbatim>\<open>save\<close> stores a pointer (\<^verbatim>\<open>&requestItem{...}\<close>) and \<^verbatim>\<open>load\<close>
  asserts the value type (\<^verbatim>\<open>itemRaw.(requestItem)\<close>), so for every record that \<^verbatim>\<open>save\<close>
  has written the assertion panics: \<^verbatim>\<open>load\<close> reports not found with a nil error, the
  session is untouched and no later tier is tried.
\<close>

theorem load_panics_on_saved_request_item:
  assumes "(backendTypes cs AND RequestBackend) > 0"
    and "gcontext_Get (keyPrefix cs @ ID session) w = Some (RequestItemPtr item)"
  shows "load cs session w =
           ((False, None), session,
            logf (Errorf ''Could not load session: %s'' TypeAssertionError)
              (logf (Debugf ''Loading session: [%s]'' (ID session)) w))"
  using assms by (simp add: load_defs Let_def gcontext_Get_def logf_def)

text \<open>All three tiers enabled: after a successful \<^verbatim>\<open>save\<close> the request tier and memcache
  both hold the live record, and \<^verbatim>\<open>load\<close> in the same request finds nothing.\<close>

theorem load_panics_on_saved_request_item_witness:
  "gcontext_Get ''session.ABC'' (snd (save (aliceStore 7) aliceSession world0)) =
     Some (RequestItemPtr
            \<lparr>requestItem.Value = aliceBytes, requestItem.ExpiresAt = 1200000001000\<rparr>) \<and>
   Before (Now (snd (save (aliceStore 7) aliceSession world0))) 1200000001000 \<and>
   memcache_Get ''session.ABC'' (snd (save (aliceStore 7) aliceSession world0)) =
     Inr \<lparr>Key = ''session.ABC'', Value = aliceBytes, Expiration = 1200000000000\<rparr> \<and>
   fst (load (aliceStore 7) emptySession (snd (save (aliceStore 7) aliceSession world0))) =
     (False, None)"
  using load_panics_on_saved_request_item
      [of "aliceStore 7" emptySession "snd (save (aliceStore 7) aliceSession world0)"
          "\<lparr>requestItem.Value = aliceBytes, requestItem.ExpiresAt = 1200000001000\<rparr>"]
  by (simp add: fixture_defs mask_defs save_defs backend_defs Let_def)

subsection \<open>Round trip\<close>

text \<open>
  C1, as stated: saving a session that fits the size limit and loading the same ID
  reports found and restores the value mapping, for every subset of enabled tiers, the
  empty subset included. With no tier enabled \<^verbatim>\<open>save\<close> succeeds and writes nothing, and
  \<^verbatim>\<open>load\<close> finds nothing.
\<close>

theorem round_trip_fails_without_tiers:
  "Serialize (serializer (aliceStore 0)) aliceSession = Inr aliceBytes \<and>
   len aliceBytes \<le> maxLength (aliceStore 0) \<and>
   fst (save (aliceStore 0) aliceSession world0) = None \<and>
   fst (load (aliceStore 0) emptySession (snd (save (aliceStore 0) aliceSession world0))) =
     (False, None)"
  by (simp add: fixture_defs mask_defs save_defs load_defs backend_defs Let_def)

text \<open>
  C1, amended. Let the memcache or the datastore tier be enabled and the request tier
  not. Let the session \<open>s\<close> serialize to a non-nil slice within the size limit, and let the
  serializer decode that slice into the session \<open>t\<close> being loaded (same ID) with the
  value mapping of \<open>s\<close>. If the backends accept the writes, still hold what \<^verbatim>\<open>save\<close>
  wrote when \<^verbatim>\<open>load\<close> runs, answer the reads, and \<^verbatim>\<open>load\<close> runs before the expiration
  that \<^verbatim>\<open>save\<close> computed, then \<^verbatim>\<open>save\<close> returns nil and \<^verbatim>\<open>load\<close> reports found with a nil
  error and restores the value mapping of \<open>s\<close>.
\<close>

theorem save_load_round_trip:
  assumes no_request: "\<not> (backendTypes cs AND RequestBackend) > 0"
    and some_tier: "(backendTypes cs AND MemcacheBackend) > 0 \<or>
                    (backendTypes cs AND DatastoreBackend) > 0"
    and ser: "Serialize (serializer cs) s = Inr (Some bs)"
    and size: "maxLength cs = 0 \<or> len (Some bs) \<le> maxLength cs"
    and deser: "Deserialize (serializer cs) (Some bs) t = Inr t'"
    and same_values: "Values t' = Values s"
    and same_id: "ID t = ID s"
    and set_ok: "memcacheSetErr w = None" "datastorePutErr w = None"
    and later: "memcache w2 = memcache (snd (save cs s w))"
               "datastore w2 = datastore (snd (save cs s w))"
    and get_ok: "memcacheGetErr w2 = None" "datastoreGetErr w2 = None"
    and in_time: "clock w2 < clock w + seconds (effective_age cs s)"
  shows "fst (save cs s w) = None \<and>
         fst (load cs t w2) = (True, None) \<and>
         Values (fst (snd (load cs t w2))) = Values s"
proof -
  let ?key = "keyPrefix cs @ ID s"
  let ?exp = "seconds (effective_age cs s)"
  have sv: "fst (save cs s w) = None"
    using ser by (simp add: save_defs Let_def split: flow.split prod.split sum.split option.split)
  have mc: "(backendTypes cs AND MemcacheBackend) > 0 \<Longrightarrow>
        memcache (snd (save cs s w)) ?key =
          Some (\<lparr>Key = ?key, Value = Some bs, Expiration = ?exp\<rparr>, clock w)"
    using ser size set_ok no_request
    by (auto simp add: save_defs backend_defs Let_def)
  have ds: "(backendTypes cs AND DatastoreBackend) > 0 \<Longrightarrow>
        datastore (snd (save cs s w)) (''Session'', ?key) =
          Some \<lparr>sessionKind.Value = Some bs, sessionKind.ExpiresAt = clock w + ?exp\<rparr>"
    using ser size set_ok no_request
    by (auto simp add: save_defs backend_defs Let_def)
  have ld: "fst (load cs t w2) = (True, None) \<and> fst (snd (load cs t w2)) = t'"
  proof (cases "(backendTypes cs AND MemcacheBackend) > 0")
    case True
    with mc later in_time get_ok no_request deser same_id show ?thesis
      by (simp add: load_defs backend_defs Let_def)
  next
    case False
    with some_tier have "(backendTypes cs AND DatastoreBackend) > 0" by simp
    with False ds later in_time get_ok no_request deser same_id show ?thesis
      by (simp add: load_defs backend_defs Let_def)
  qed
  with sv same_values show ?thesis by simp
qed

theorem save_load_round_trip_witness:
  "fst (save (aliceStore 6) aliceSession world0) = None \<and>
   fst (load (aliceStore 6) emptySession
          ((snd (save (aliceStore 6) aliceSession world0))\<lparr>clock := 2000\<rparr>)) = (True, None) \<and>
   Values (fst (snd (load (aliceStore 6) emptySession
          ((snd (save (aliceStore 6) aliceSession world0))\<lparr>clock := 2000\<rparr>)))) =
     [(''user'', ''alice'')]"
  using save_load_round_trip
      [of "aliceStore 6" aliceSession "[1, 2, 3, 4, 5]" emptySession aliceSession world0
          "(snd (save (aliceStore 6) aliceSession world0))\<lparr>clock := 2000\<rparr>"]
  by (simp add: fixture_defs mask_defs save_defs backend_defs Let_def)

subsection \<open>Abort on the first failed write\<close>

text \<open>
  C5. For every \<^verbatim>\<open>save\<close> call with the memcache and datastore tiers enabled: if the
  write to memcache fails, the datastore is as it was before the call; and when the
  request tier is enabled and the session was serialized within the size limit (so that
  the writes were attempted at all), the record written to the request tier is still
  there.
\<close>

theorem save_memcache_failure_skips_datastore:
  assumes "(backendTypes cs AND MemcacheBackend) > 0"
    and "(backendTypes cs AND DatastoreBackend) > 0"
    and "memcacheSetErr w = Some e"
  shows "datastore (snd (save cs session w)) = datastore w \<and>
         ((backendTypes cs AND RequestBackend) > 0 \<and>
          Serialize (serializer cs) session = Inr serialized \<and>
          (maxLength cs = 0 \<or> len serialized \<le> maxLength cs) \<longrightarrow>
            gcontext_Get (keyPrefix cs @ ID session) (snd (save cs session w)) =
              Some (RequestItemPtr
                     \<lparr>requestItem.Value = serialized,
                      requestItem.ExpiresAt = Add (Now w) (seconds (effective_age cs session))\<rparr>))"
  using assms
  by (auto simp add: save_defs backend_defs Let_def split: sum.split)

theorem save_memcache_failure_skips_datastore_witness:
  "memcache_Set \<lparr>Key = ''session.ABC'', Value = aliceBytes, Expiration = 1200000000000\<rparr>
     (world0\<lparr>memcacheSetErr := Some memcacheDown\<rparr>) =
       (Some memcacheDown, world0\<lparr>memcacheSetErr := Some memcacheDown\<rparr>) \<and>
   datastore (snd (save (aliceStore 7) aliceSession (world0\<lparr>memcacheSetErr := Some memcacheDown\<rparr>)))
     (''Session'', ''session.ABC'') = None \<and>
   gcontext_Get ''session.ABC''
     (snd (save (aliceStore 7) aliceSession (world0\<lparr>memcacheSetErr := Some memcacheDown\<rparr>))) =
     Some (RequestItemPtr
            \<lparr>requestItem.Value = aliceBytes, requestItem.ExpiresAt = 1200000001000\<rparr>)"
  using save_memcache_failure_skips_datastore
      [of "aliceStore 7" "world0\<lparr>memcacheSetErr := Some memcacheDown\<rparr>" memcacheDown
          aliceSession aliceBytes]
  by (simp add: fixture_defs memcacheDown_def mask_defs backend_defs)

subsection \<open>The expiration\<close>

lemma wrap64_id: "- (2 ^ 63) \<le> x \<Longrightarrow> x < 2 ^ 63 \<Longrightarrow> wrap64 x = x"
  by (simp add: wrap64_def)

lemma seconds_exact:
  assumes "- (2 ^ 63) \<le> Second * age" and "Second * age < 2 ^ 63"
  shows "seconds age = Second * age"
proof -
  from assms have "- (2 ^ 63) \<le> age" and "age < 2 ^ 63"
    by (simp_all add: Second_def)
  then have "wrap64 age = age" by (rule wrap64_id)
  with assms show ?thesis by (simp add: seconds_def wrap64_id)
qed

text \<open>
  C7, as stated: for every \<^verbatim>\<open>save\<close> call the expiration of each tier is the current time
  plus the effective TTL. The TTL in nanoseconds is the 64-bit product
  \<^verbatim>\<open>time.Second * time.Duration(age)\<close>. A max-age of 9223372037 seconds does not fit: the
  product wraps to a negative duration and the stored expiration lies in the past,
  while the current time plus the TTL is 9223372037000001000.
\<close>

theorem expiration_wraps_for_large_max_age:
  "effective_age (aliceStore 4) longLivedSession = 9223372037 \<and>
   Add (Now world0) (Second * 9223372037) = 9223372037000001000 \<and>
   datastore (snd (save (aliceStore 4) longLivedSession world0)) (''Session'', ''session.ABC'') =
     Some \<lparr>sessionKind.Value = aliceBytes, sessionKind.ExpiresAt = - 9223372036709550616\<rparr>"
  by (simp add: fixture_defs longLivedSession_def mask_defs save_defs backend_defs Let_def)

text \<open>
  C7, amended. The effective TTL is the session's max-age when that is not zero and the
  store's default max-age otherwise. For every \<^verbatim>\<open>save\<close> call that serializes the session
  within the size limit and whose TTL in nanoseconds fits a signed 64-bit duration: the
  record in the request tier and (when the writes before it did not fail) the entity in
  the datastore carry the expiration current time plus TTL, and the memcache item is
  set, at the current time, with that same TTL as its relative expiration.
\<close>

theorem save_effective_ttl:
  assumes ser: "Serialize (serializer cs) session = Inr serialized"
    and size: "maxLength cs = 0 \<or> len serialized \<le> maxLength cs"
    and fits: "- (2 ^ 63) \<le> Second * effective_age cs session"
              "Second * effective_age cs session < 2 ^ 63"
  shows "effective_age cs session =
           (if MaxAge (Session.Options session) \<noteq> 0 then MaxAge (Session.Options session)
            else DefaultMaxAge cs) \<and>
         ((backendTypes cs AND RequestBackend) > 0 \<longrightarrow>
            reqctx (snd (save cs session w)) (keyPrefix cs @ ID session) =
              Some (RequestItemPtr
                     \<lparr>requestItem.Value = serialized,
                      requestItem.ExpiresAt = clock w + Second * effective_age cs session\<rparr>)) \<and>
         ((backendTypes cs AND MemcacheBackend) > 0 \<and> memcacheSetErr w = None \<longrightarrow>
            memcache (snd (save cs session w)) (keyPrefix cs @ ID session) =
              Some (\<lparr>Key = keyPrefix cs @ ID session, Value = serialized,
                      Expiration = Second * effective_age cs session\<rparr>, clock w)) \<and>
         ((backendTypes cs AND DatastoreBackend) > 0 \<and> datastorePutErr w = None \<and>
          ((backendTypes cs AND MemcacheBackend) > 0 \<longrightarrow> memcacheSetErr w = None) \<longrightarrow>
            datastore (snd (save cs session w)) (''Session'', keyPrefix cs @ ID session) =
              Some \<lparr>sessionKind.Value = serialized,
                    sessionKind.ExpiresAt = clock w + Second * effective_age cs session\<rparr>)"
proof -
  have sec: "seconds (effective_age cs session) = Second * effective_age cs session"
    using fits by (rule seconds_exact)
  have age: "effective_age cs session =
           (if MaxAge (Session.Options session) \<noteq> 0 then MaxAge (Session.Options session)
            else DefaultMaxAge cs)"
    by (simp add: effective_age_def Let_def)
  show ?thesis
    using ser size sec
    apply (intro conjI impI)
       apply (rule age)
      apply (auto simp add: save_defs backend_defs Let_def split: option.splits)
    done
qed

theorem save_effective_ttl_witness:
  "effective_age (aliceStore 7) aliceSession = 1200 \<and>
   reqctx (snd (save (aliceStore 7) aliceSession world0)) ''session.ABC'' =
     Some (RequestItemPtr
            \<lparr>requestItem.Value = aliceBytes, requestItem.ExpiresAt = 1200000001000\<rparr>) \<and>
   memcache (snd (save (aliceStore 7) aliceSession world0)) ''session.ABC'' =
     Some (\<lparr>Key = ''session.ABC'', Value = aliceBytes, Expiration = 1200000000000\<rparr>, 1000) \<and>
   datastore (snd (save (aliceStore 7) aliceSession world0)) (''Session'', ''session.ABC'') =
     Some \<lparr>sessionKind.Value = aliceBytes, sessionKind.ExpiresAt = 1200000001000\<rparr>"
  using save_effective_ttl [of "aliceStore 7" aliceSession aliceBytes world0]
  by (simp add: fixture_defs mask_defs)

subsection \<open>A store without tiers\<close>

text \<open>
  C9, as stated: with a backend bitmask of zero \<^verbatim>\<open>save\<close> returns no error. When the
  serializer fails, \<^verbatim>\<open>save\<close> returns the serializer's error: the named result was
  assigned by \<^verbatim>\<open>serialized, err = cs.serializer.Serialize(session)\<close> before the panic.
\<close>

theorem no_tier_save_returns_serializer_error:
  "backendTypes (SetSerializer failingSerializer (aliceStore 0)) = 0 \<and>
   fst (save (SetSerializer failingSerializer (aliceStore 0)) aliceSession world0) =
     Some (OtherError ''serializer: cannot encode'')"
  by (simp add: SetSerializer_def fixture_defs failingSerializer_def save_defs Let_def)

text \<open>
  C9, amended. For a store with a backend bitmask of zero, \<^verbatim>\<open>save\<close> writes to no tier;
  it returns no error whenever the session serializes within the size limit; and every
  \<^verbatim>\<open>load\<close>, of any session in any world, reports not found with a nil error and leaves
  the session as it was.
\<close>

theorem no_tier_store_never_persists:
  assumes "backendTypes cs = 0"
  shows "reqctx (snd (save cs session w)) = reqctx w \<and>
         memcache (snd (save cs session w)) = memcache w \<and>
         datastore (snd (save cs session w)) = datastore w \<and>
         (Serialize (serializer cs) session = Inr serialized \<and>
          (maxLength cs = 0 \<or> len serialized \<le> maxLength cs) \<longrightarrow>
            fst (save cs session w) = None) \<and>
         fst (load cs t w') = (False, None) \<and>
         fst (snd (load cs t w')) = t"
  using assms
  by (auto simp add: save_defs load_defs logf_def Let_def split: sum.split)

theorem no_tier_store_never_persists_witness:
  "backendTypes (aliceStore 0) = 0 \<and>
   reqctx (snd (save (aliceStore 0) aliceSession world0)) ''session.ABC'' = None \<and>
   memcache (snd (save (aliceStore 0) aliceSession world0)) ''session.ABC'' = None \<and>
   datastore (snd (save (aliceStore 0) aliceSession world0)) (''Session'', ''session.ABC'') = None \<and>
   fst (save (aliceStore 0) aliceSession world0) = None \<and>
   fst (load (aliceStore 0) emptySession (snd (save (aliceStore 0) aliceSession world0))) =
     (False, None) \<and>
   fst (snd (load (aliceStore 0) emptySession (snd (save (aliceStore 0) aliceSession world0)))) =
     emptySession"
  using no_tier_store_never_persists
      [of "aliceStore 0" aliceSession world0 aliceBytes emptySession
          "snd (save (aliceStore 0) aliceSession world0)"]
  by (simp add: fixture_defs)

subsection \<open>\<^verbatim>\<open>New\<close>\<close>

text \<open>\<^verbatim>\<open>load\<close> either reports found with a nil error, or reports not found and leaves the
  session as it was.\<close>

lemma load_found_or_unchanged:
  "fst (load cs session w) = (True, None) \<or>
   (fst (fst (load cs session w)) = False \<and> fst (snd (load cs session w)) = session)"
  by (simp add: load_def split: flow.split prod.split sum.split)

text \<open>
  C4, as stated: \<^verbatim>\<open>New\<close> never returns a non-nil error for a corrupt cookie. The outer
  \<^verbatim>\<open>err\<close> of \<^verbatim>\<open>New\<close> is assigned by \<^verbatim>\<open>securecookie.DecodeMulti\<close> and returned, as in
  gorilla's \<^verbatim>\<open>FilesystemStore.New\<close> which the comment on \<^verbatim>\<open>New\<close> refers to: a cookie that
  fails decoding yields a new session together with the decode error.
\<close>

theorem New_returns_decode_error:
  "Cookie_of \<lparr>Cookies = [(''sid'', ''garbage'')]\<rparr> ''sid'' = Inr ''garbage'' \<and>
   DecodeMulti (Codecs (aliceStore 6)) ''sid'' ''garbage'' =
     Inl (OtherError ''securecookie: the value is not valid'') \<and>
   snd (fst (New (aliceStore 6) \<lparr>Cookies = [(''sid'', ''garbage'')]\<rparr> ''sid'' world0)) =
     Some (OtherError ''securecookie: the value is not valid'')"
  by (simp add: New_def fixture_defs Cookie_of_def Let_def)

text \<open>
  C4, amended. \<^verbatim>\<open>New\<close> always returns a session that is marked new with an empty value
  mapping when the request has no cookie of that name, when the cookie fails decoding,
  and when the decoded session fails to load (\<^verbatim>\<open>load\<close> reports an error or not found).
  The error returned is nil in the first and the third case, and the decode error in the
  second.
\<close>

theorem New_degrades_to_new_session:
  "(Cookie_of r nm = Inl ec \<longrightarrow>
      snd (fst (New cs r nm w)) = None \<and>
      IsNew (fst (fst (New cs r nm w))) \<and> Values (fst (fst (New cs r nm w))) = []) \<and>
   (Cookie_of r nm = Inr c \<and> DecodeMulti (Codecs cs) nm c = Inl e \<longrightarrow>
      snd (fst (New cs r nm w)) = Some e \<and>
      IsNew (fst (fst (New cs r nm w))) \<and> Values (fst (fst (New cs r nm w))) = []) \<and>
   (Cookie_of r nm = Inr c \<and> DecodeMulti (Codecs cs) nm c = Inr sid \<and>
    fst (load cs ((NewSession nm)\<lparr>Session.Options := CascadeStore.Options cs, IsNew := True, ID := sid\<rparr>) w) \<noteq> (True, None) \<longrightarrow>
      snd (fst (New cs r nm w)) = None \<and>
      IsNew (fst (fst (New cs r nm w))) \<and> Values (fst (fst (New cs r nm w))) = [])"
proof -
  let ?s = "(NewSession nm)\<lparr>Session.Options := CascadeStore.Options cs, IsNew := True, ID := sid\<rparr>"
  have "snd (fst (New cs r nm w)) = None \<and>
      IsNew (fst (fst (New cs r nm w))) \<and> Values (fst (fst (New cs r nm w))) = []"
    if c: "Cookie_of r nm = Inr c" and d: "DecodeMulti (Codecs cs) nm c = Inr sid"
      and l: "fst (load cs ?s w) \<noteq> (True, None)"
  proof -
    obtain ok lerr s' w' where ld: "load cs ?s w = ((ok, lerr), s', w')"
      by (metis prod.exhaust)
    with l load_found_or_unchanged [of cs ?s w] have "ok = False" and "s' = ?s"
      by auto
    with c d ld show ?thesis
      by (simp add: New_def NewSession_def Let_def)
  qed
  then show ?thesis
    by (auto simp add: New_def NewSession_def Let_def)
qed

theorem New_degrades_to_new_session_witness:
  "snd (fst (New (aliceStore 6) \<lparr>Cookies = []\<rparr> ''sid'' world0)) = None \<and>
   IsNew (fst (fst (New (aliceStore 6) \<lparr>Cookies = []\<rparr> ''sid'' world0))) \<and>
   Values (fst (fst (New (aliceStore 6) \<lparr>Cookies = []\<rparr> ''sid'' world0))) = [] \<and>
   snd (fst (New (aliceStore 6) \<lparr>Cookies = [(''sid'', ''garbage'')]\<rparr> ''sid'' world0)) =
     Some (OtherError ''securecookie: the value is not valid'') \<and>
   IsNew (fst (fst (New (aliceStore 6) \<lparr>Cookies = [(''sid'', ''garbage'')]\<rparr> ''sid'' world0))) \<and>
   Values (fst (fst (New (aliceStore 6) \<lparr>Cookies = [(''sid'', ''garbage'')]\<rparr> ''sid'' world0))) = [] \<and>
   fst (load (aliceStore 6) ((NewSession ''sid'')\<lparr>Session.Options := CascadeStore.Options (aliceStore 6),
                                      IsNew := True, ID := ''ABC''\<rparr>)
          (world0\<lparr>memcacheGetErr := Some memcacheDown\<rparr>)) = (False, Some memcacheDown) \<and>
   snd (fst (New (aliceStore 6) \<lparr>Cookies = [(''sid'', ''signed:ABC'')]\<rparr> ''sid''
               (world0\<lparr>memcacheGetErr := Some memcacheDown\<rparr>))) = None \<and>
   IsNew (fst (fst (New (aliceStore 6) \<lparr>Cookies = [(''sid'', ''signed:ABC'')]\<rparr> ''sid''
               (world0\<lparr>memcacheGetErr := Some memcacheDown\<rparr>)))) \<and>
   Values (fst (fst (New (aliceStore 6) \<lparr>Cookies = [(''sid'', ''signed:ABC'')]\<rparr> ''sid''
               (world0\<lparr>memcacheGetErr := Some memcacheDown\<rparr>)))) = []"
proof -
  have ld: "fst (load (aliceStore 6)
                  ((NewSession ''sid'')\<lparr>Session.Options := CascadeStore.Options (aliceStore 6),
                                      IsNew := True, ID := ''ABC''\<rparr>)
                  (world0\<lparr>memcacheGetErr := Some memcacheDown\<rparr>)) = (False, Some memcacheDown)"
    by (simp add: fixture_defs Cookie_of_def NewSession_def memcacheDown_def mask_defs load_defs backend_defs Let_def)
  have c1: "Cookie_of \<lparr>Cookies = []\<rparr> ''sid'' = Inl ErrNoCookie"
    by (simp add: Cookie_of_def)
  have c2: "Cookie_of \<lparr>Cookies = [(''sid'', ''garbage'')]\<rparr> ''sid'' = Inr ''garbage'' \<and>
            DecodeMulti (Codecs (aliceStore 6)) ''sid'' ''garbage'' =
              Inl (OtherError ''securecookie: the value is not valid'')"
    by (simp add: fixture_defs Cookie_of_def NewSession_def memcacheDown_def)
  have c3: "Cookie_of \<lparr>Cookies = [(''sid'', ''signed:ABC'')]\<rparr> ''sid'' = Inr ''signed:ABC'' \<and>
            DecodeMulti (Codecs (aliceStore 6)) ''sid'' ''signed:ABC'' = Inr ''ABC''"
    by (simp add: fixture_defs Cookie_of_def NewSession_def memcacheDown_def)
  from ld have ne: "fst (load (aliceStore 6)
                  ((NewSession ''sid'')\<lparr>Session.Options := CascadeStore.Options (aliceStore 6),
                                      IsNew := True, ID := ''ABC''\<rparr>)
                  (world0\<lparr>memcacheGetErr := Some memcacheDown\<rparr>)) \<noteq> (True, None)"
    by simp
  from New_degrades_to_new_session [of "\<lparr>Cookies = []\<rparr>" "''sid''" ErrNoCookie "aliceStore 6" world0] c1
  have a: "snd (fst (New (aliceStore 6) \<lparr>Cookies = []\<rparr> ''sid'' world0)) = None \<and>
   IsNew (fst (fst (New (aliceStore 6) \<lparr>Cookies = []\<rparr> ''sid'' world0))) \<and>
   Values (fst (fst (New (aliceStore 6) \<lparr>Cookies = []\<rparr> ''sid'' world0))) = []"
    by blast
  from New_degrades_to_new_session [of "\<lparr>Cookies = [(''sid'', ''garbage'')]\<rparr>" "''sid''" ErrNoCookie
      "aliceStore 6" world0 "''garbage''" "OtherError ''securecookie: the value is not valid''"] c2
  have b: "snd (fst (New (aliceStore 6) \<lparr>Cookies = [(''sid'', ''garbage'')]\<rparr> ''sid'' world0)) =
     Some (OtherError ''securecookie: the value is not valid'') \<and>
   IsNew (fst (fst (New (aliceStore 6) \<lparr>Cookies = [(''sid'', ''garbage'')]\<rparr> ''sid'' world0))) \<and>
   Values (fst (fst (New (aliceStore 6) \<lparr>Cookies = [(''sid'', ''garbage'')]\<rparr> ''sid'' world0))) = []"
    by blast
  from New_degrades_to_new_session [of "\<lparr>Cookies = [(''sid'', ''signed:ABC'')]\<rparr>" "''sid''" ErrNoCookie
      "aliceStore 6" "world0\<lparr>memcacheGetErr := Some memcacheDown\<rparr>" "''signed:ABC''"
      ErrNoCookie "''ABC''"] c3 ne
  have c: "snd (fst (New (aliceStore 6) \<lparr>Cookies = [(''sid'', ''signed:ABC'')]\<rparr> ''sid''
               (world0\<lparr>memcacheGetErr := Some memcacheDown\<rparr>))) = None \<and>
   IsNew (fst (fst (New (aliceStore 6) \<lparr>Cookies = [(''sid'', ''signed:ABC'')]\<rparr> ''sid''
               (world0\<lparr>memcacheGetErr := Some memcacheDown\<rparr>)))) \<and>
   Values (fst (fst (New (aliceStore 6) \<lparr>Cookies = [(''sid'', ''signed:ABC'')]\<rparr> ''sid''
               (world0\<lparr>memcacheGetErr := Some memcacheDown\<rparr>)))) = []"
    by blast
  from a b c ld show ?thesis by blast
qed

subsection \<open>An expired record in the datastore\<close>

lemma delete_removes:
  assumes "memcacheDeleteErr w = None" and "datastoreDeleteErr w = None"
  shows "((backendTypes cs AND RequestBackend) > 0 \<longrightarrow>
            reqctx (snd (delete cs session w)) (keyPrefix cs @ ID session) = None) \<and>
         ((backendTypes cs AND MemcacheBackend) > 0 \<longrightarrow>
            memcache (snd (delete cs session w)) (keyPrefix cs @ ID session) = None) \<and>
         ((backendTypes cs AND DatastoreBackend) > 0 \<longrightarrow>
            datastore (snd (delete cs session w)) (''Session'', keyPrefix cs @ ID session) = None)"
  using assms
  by (auto simp add: delete_defs backend_defs Let_def split: option.splits)

lemma load_expired:
  assumes reach: "load_after_memcache cs session w = Next (None, err, w2)"
    and ds: "(backendTypes cs AND DatastoreBackend) > 0"
    and got: "datastore_Get (NewKey ''Session'' (keyPrefix cs @ ID session)) w2 = Inr rec"
    and expired: "\<not> Before (Now w) (sessionKind.ExpiresAt rec)"
  shows "load cs session w = ((False, None), session, snd (delete cs session w2))"
proof -
  obtain e w' where d: "delete cs session w2 = (e, w')"
    by (cases "delete cs session w2")
  with delete_err [of cs session w2] have "e = None" by simp
  with d reach ds got expired show ?thesis
    by (simp add: load_def load_search_def load_datastore_def Let_def Now_def logf_def)
qed

text \<open>
  C6, as stated: whenever \<^verbatim>\<open>load\<close> finds an expired record in the datastore the key is
  removed from every enabled tier. The delete cascade stops at a failed memcache delete
  (and only logs a failed datastore delete): here memcache and the datastore are
  enabled, memcache reports a miss on the read and a server error on the delete, and
  after \<^verbatim>\<open>load\<close> the expired record is still in the datastore.
\<close>

theorem expired_record_survives_failed_delete:
  "memcache_Get ''session.ABC'' (expiredWorld\<lparr>memcacheDeleteErr := Some memcacheDown\<rparr>) =
     Inl ErrCacheMiss \<and>
   datastore_Get (NewKey ''Session'' ''session.ABC'')
       (expiredWorld\<lparr>memcacheDeleteErr := Some memcacheDown\<rparr>) =
     Inr \<lparr>sessionKind.Value = aliceBytes, sessionKind.ExpiresAt = 500\<rparr> \<and>
   \<not> Before (Now (expiredWorld\<lparr>memcacheDeleteErr := Some memcacheDown\<rparr>)) 500 \<and>
   fst (load (aliceStore 6) emptySession (expiredWorld\<lparr>memcacheDeleteErr := Some memcacheDown\<rparr>)) =
     (False, None) \<and>
   datastore (snd (snd (load (aliceStore 6) emptySession
                          (expiredWorld\<lparr>memcacheDeleteErr := Some memcacheDown\<rparr>))))
     (''Session'', ''session.ABC'') =
     Some \<lparr>sessionKind.Value = aliceBytes, sessionKind.ExpiresAt = 500\<rparr>"
  by (simp add: fixture_defs expiredWorld_def memcacheDown_def mask_defs backend_defs load_defs delete_defs Let_def)

text \<open>
  C6, amended. For every \<^verbatim>\<open>load\<close> call whose search reaches the datastore block with
  nothing found (\<open>load_after_memcache\<close> ends normally with a nil \<^verbatim>\<open>value\<close>) and finds
  there a record whose \<^verbatim>\<open>ExpiresAt\<close> is not after the current time: \<^verbatim>\<open>load\<close> reports not
  found with a nil error, and the world it leaves is the one the delete cascade leaves.
  If neither backend delete fails, the key is then absent from every enabled tier.
\<close>

theorem load_expired_datastore_record:
  assumes reach: "load_after_memcache cs session w = Next (None, err, w2)"
    and ds: "(backendTypes cs AND DatastoreBackend) > 0"
    and got: "datastore_Get (NewKey ''Session'' (keyPrefix cs @ ID session)) w2 = Inr rec"
    and expired: "\<not> Before (Now w) (sessionKind.ExpiresAt rec)"
  shows "fst (load cs session w) = (False, None) \<and>
         snd (snd (load cs session w)) = snd (delete cs session w2) \<and>
         (memcacheDeleteErr w2 = None \<and> datastoreDeleteErr w2 = None \<longrightarrow>
            ((backendTypes cs AND RequestBackend) > 0 \<longrightarrow>
               reqctx (snd (snd (load cs session w))) (keyPrefix cs @ ID session) = None) \<and>
            ((backendTypes cs AND MemcacheBackend) > 0 \<longrightarrow>
               memcache (snd (snd (load cs session w))) (keyPrefix cs @ ID session) = None) \<and>
            datastore (snd (snd (load cs session w))) (''Session'', keyPrefix cs @ ID session) = None)"
  using load_expired [OF assms] delete_removes [of w2 cs session] ds
  by simp

theorem load_expired_datastore_record_witness:
  "load_after_memcache (aliceStore 7) emptySession expiredWorld =
     Next (None, Some ErrCacheMiss,
           expiredWorld\<lparr>logs := [Debugf ''Loading session: [%s]'' ''ABC'',
                                   Debugf ''Could not find session in Memcache: [%s]'' ''session.ABC'']\<rparr>) \<and>
   fst (load (aliceStore 7) emptySession expiredWorld) = (False, None) \<and>
   reqctx (snd (snd (load (aliceStore 7) emptySession expiredWorld))) ''session.ABC'' = None \<and>
   memcache (snd (snd (load (aliceStore 7) emptySession expiredWorld))) ''session.ABC'' = None \<and>
   datastore (snd (snd (load (aliceStore 7) emptySession expiredWorld)))
     (''Session'', ''session.ABC'') = None"
proof -
  let ?w2 = "expiredWorld\<lparr>logs := [Debugf ''Loading session: [%s]'' ''ABC'',
                 Debugf ''Could not find session in Memcache: [%s]'' ''session.ABC'']\<rparr>"
  have reach: "load_after_memcache (aliceStore 7) emptySession expiredWorld =
                 Next (None, Some ErrCacheMiss, ?w2)"
    by (simp add: fixture_defs expiredWorld_def mask_defs backend_defs
          load_after_memcache_def load_after_request_def load_request_def load_memcache_def Let_def)
  have ds: "(backendTypes (aliceStore 7) AND DatastoreBackend) > 0"
    by (simp add: fixture_defs expiredWorld_def mask_defs)
  have got: "datastore_Get (NewKey ''Session'' (keyPrefix (aliceStore 7) @ ID emptySession)) ?w2 =
               Inr \<lparr>sessionKind.Value = aliceBytes, sessionKind.ExpiresAt = 500\<rparr>"
    by (simp add: fixture_defs expiredWorld_def backend_defs)
  have expired: "\<not> Before (Now expiredWorld)
                    (sessionKind.ExpiresAt \<lparr>sessionKind.Value = aliceBytes, sessionKind.ExpiresAt = 500\<rparr>)"
    by (simp add: fixture_defs expiredWorld_def backend_defs)
  have ok: "memcacheDeleteErr ?w2 = None \<and> datastoreDeleteErr ?w2 = None"
    by (simp add: fixture_defs expiredWorld_def)
  have key: "keyPrefix (aliceStore 7) @ ID emptySession = ''session.ABC''"
    by (simp add: fixture_defs expiredWorld_def)
  have tiers: "(backendTypes (aliceStore 7) AND RequestBackend) > 0 \<and>
               (backendTypes (aliceStore 7) AND MemcacheBackend) > 0"
    by (simp add: fixture_defs expiredWorld_def mask_defs)
  note found = load_expired_datastore_record [OF reach ds got expired, unfolded key]
  from found ok tiers reach show ?thesis by blast
qed

subsection \<open>Backend failures\<close>

lemma save_abort:
  assumes "(backendTypes cs AND MemcacheBackend) > 0" and "memcacheSetErr w = Some e"
  shows "datastore (snd (save cs session w)) = datastore w"
  using assms by (auto simp add: save_defs backend_defs Let_def split: sum.split)

lemma load_memcache_abort:
  assumes "load_after_request cs session w = Next (None, err, w2)"
    and "(backendTypes cs AND MemcacheBackend) > 0"
    and "memcache_Get (keyPrefix cs @ ID session) w2 = Inl e" and "e \<noteq> ErrCacheMiss"
  shows "load cs session w =
           ((False, Some e), session, logf (Errorf ''Could not load session: %s'' e) w2)"
  using assms
  by (simp add: load_def load_search_def load_after_memcache_def load_memcache_def Let_def)

lemma load_datastore_abort:
  assumes "load_after_memcache cs session w = Next (None, err, w2)"
    and "(backendTypes cs AND DatastoreBackend) > 0"
    and "datastore_Get (NewKey ''Session'' (keyPrefix cs @ ID session)) w2 = Inl e"
    and "e \<noteq> ErrNoSuchEntity"
  shows "fst (fst (load cs session w)) = False \<and>
         snd (load cs session w) = (session, logf (Errorf ''Could not load session: %s'' e) w2)"
  using assms
  by (simp add: load_def load_search_def load_datastore_def Let_def)

lemma delete_abort:
  assumes "(backendTypes cs AND MemcacheBackend) > 0"
    and "memcacheDeleteErr w = Some e" and "e \<noteq> ErrCacheMiss"
  shows "datastore (snd (delete cs session w)) = datastore w"
  using assms by (simp add: delete_defs backend_defs Let_def)

text \<open>
  C3, as stated: every tier error other than not-found or cache-miss is returned to the
  caller of \<^verbatim>\<open>save\<close>, \<^verbatim>\<open>load\<close> or \<^verbatim>\<open>delete\<close>. \<^verbatim>\<open>delete\<close> logs a failed
  \<^verbatim>\<open>datastore.Delete\<close> as a warning and goes on to \<^verbatim>\<open>return nil\<close>; it does not panic
  there.
\<close>

theorem delete_swallows_datastore_error:
  "datastore_Delete (NewKey ''Session'' ''session.ABC'')
     (world0\<lparr>datastoreDeleteErr := Some datastoreDown\<rparr>) =
       (Some datastoreDown, world0\<lparr>datastoreDeleteErr := Some datastoreDown\<rparr>) \<and>
   datastoreDown \<noteq> ErrNoSuchEntity \<and> datastoreDown \<noteq> ErrCacheMiss \<and>
   fst (delete (aliceStore 4) aliceSession (world0\<lparr>datastoreDeleteErr := Some datastoreDown\<rparr>)) = None"
  by (simp add: fixture_defs datastoreDown_def mask_defs backend_defs delete_defs Let_def)

text \<open>
  C3, amended. When a tier adapter reports an error other than not-found or cache-miss,
  the rest of the cascade is not executed: a failed memcache write leaves the datastore
  unwritten in \<^verbatim>\<open>save\<close>; a failed memcache or datastore read ends \<^verbatim>\<open>load\<close> with not
  found, the session unchanged and nothing but the error log line added to the world at
  that point; a failed memcache delete leaves the datastore untouched in \<^verbatim>\<open>delete\<close>.
  \<^verbatim>\<open>load\<close> returns a memcache read error to its caller. \<^verbatim>\<open>delete\<close> returns nil when the
  datastore delete fails.
\<close>

theorem backend_failure_aborts_cascade:
  "((backendTypes cs AND MemcacheBackend) > 0 \<and> memcacheSetErr w = Some e \<longrightarrow>
      datastore (snd (save cs session w)) = datastore w) \<and>
   (load_after_request cs session w = Next (None, err, w2) \<and>
    (backendTypes cs AND MemcacheBackend) > 0 \<and>
    memcache_Get (keyPrefix cs @ ID session) w2 = Inl e \<and> e \<noteq> ErrCacheMiss \<longrightarrow>
      load cs session w =
        ((False, Some e), session, logf (Errorf ''Could not load session: %s'' e) w2)) \<and>
   (load_after_memcache cs session w = Next (None, err, w2) \<and>
    (backendTypes cs AND DatastoreBackend) > 0 \<and>
    datastore_Get (NewKey ''Session'' (keyPrefix cs @ ID session)) w2 = Inl e \<and>
    e \<noteq> ErrNoSuchEntity \<longrightarrow>
      fst (fst (load cs session w)) = False \<and>
      snd (load cs session w) = (session, logf (Errorf ''Could not load session: %s'' e) w2)) \<and>
   ((backendTypes cs AND MemcacheBackend) > 0 \<and> memcacheDeleteErr w = Some e \<and>
    e \<noteq> ErrCacheMiss \<longrightarrow>
      datastore (snd (delete cs session w)) = datastore w) \<and>
   ((backendTypes cs AND DatastoreBackend) > 0 \<and> datastoreDeleteErr w = Some e \<longrightarrow>
      fst (delete cs session w) = None)"
  using save_abort [of cs w e session] load_memcache_abort [of cs session w err w2 e]
    load_datastore_abort [of cs session w err w2 e] delete_abort [of cs w e session]
    delete_err [of cs session w]
  by blast

theorem backend_failure_aborts_cascade_witness:
  "datastore (snd (save (aliceStore 6) aliceSession (world0\<lparr>memcacheSetErr := Some memcacheDown\<rparr>)))
     (''Session'', ''session.ABC'') = None \<and>
   load (aliceStore 6) emptySession (world0\<lparr>memcacheGetErr := Some memcacheDown\<rparr>) =
     ((False, Some memcacheDown), emptySession,
      world0\<lparr>memcacheGetErr := Some memcacheDown,
             logs := [Debugf ''Loading session: [%s]'' ''ABC'',
                      Errorf ''Could not load session: %s'' memcacheDown]\<rparr>) \<and>
   fst (fst (load (aliceStore 4) emptySession (world0\<lparr>datastoreGetErr := Some datastoreDown\<rparr>))) =
     False \<and>
   snd (load (aliceStore 4) emptySession (world0\<lparr>datastoreGetErr := Some datastoreDown\<rparr>)) =
     (emptySession,
      world0\<lparr>datastoreGetErr := Some datastoreDown,
             logs := [Debugf ''Loading session: [%s]'' ''ABC'',
                      Errorf ''Could not load session: %s'' datastoreDown]\<rparr>) \<and>
   datastore (snd (delete (aliceStore 6) aliceSession
                     (expiredWorld\<lparr>memcacheDeleteErr := Some memcacheDown\<rparr>)))
     (''Session'', ''session.ABC'') =
     Some \<lparr>sessionKind.Value = aliceBytes, sessionKind.ExpiresAt = 500\<rparr> \<and>
   fst (delete (aliceStore 4) aliceSession (world0\<lparr>datastoreDeleteErr := Some datastoreDown\<rparr>)) =
     None"
proof -
  let ?wS = "world0\<lparr>memcacheSetErr := Some memcacheDown\<rparr>"
  let ?wG = "world0\<lparr>memcacheGetErr := Some memcacheDown\<rparr>"
  let ?wG2 = "?wG\<lparr>logs := [Debugf ''Loading session: [%s]'' ''ABC'']\<rparr>"
  let ?wD = "world0\<lparr>datastoreGetErr := Some datastoreDown\<rparr>"
  let ?wD2 = "?wD\<lparr>logs := [Debugf ''Loading session: [%s]'' ''ABC'']\<rparr>"
  let ?wX = "expiredWorld\<lparr>memcacheDeleteErr := Some memcacheDown\<rparr>"
  let ?wE = "world0\<lparr>datastoreDeleteErr := Some datastoreDown\<rparr>"
  have mc6: "(backendTypes (aliceStore 6) AND MemcacheBackend) > 0"
    and ds4: "(backendTypes (aliceStore 4) AND DatastoreBackend) > 0"
    by (simp_all add: fixture_defs expiredWorld_def memcacheDown_def datastoreDown_def mask_defs)
  have a: "datastore (snd (save (aliceStore 6) aliceSession ?wS)) = datastore ?wS"
    using backend_failure_aborts_cascade [of "aliceStore 6" ?wS memcacheDown aliceSession] mc6
    by simp
  have b1: "load_after_request (aliceStore 6) emptySession ?wG = Next (None, None, ?wG2)"
    by (simp add: fixture_defs expiredWorld_def memcacheDown_def datastoreDown_def mask_defs backend_defs load_after_request_def load_request_def Let_def)
  have b2: "memcache_Get (keyPrefix (aliceStore 6) @ ID emptySession) ?wG2 = Inl memcacheDown \<and>
            memcacheDown \<noteq> ErrCacheMiss"
    by (simp add: fixture_defs expiredWorld_def memcacheDown_def datastoreDown_def backend_defs)
  have b: "load (aliceStore 6) emptySession ?wG =
             ((False, Some memcacheDown), emptySession,
              logf (Errorf ''Could not load session: %s'' memcacheDown) ?wG2)"
    using backend_failure_aborts_cascade
      [of "aliceStore 6" ?wG memcacheDown emptySession None ?wG2] mc6 b1 b2
    by blast
  have c1: "load_after_memcache (aliceStore 4) emptySession ?wD = Next (None, None, ?wD2)"
    by (simp add: fixture_defs expiredWorld_def memcacheDown_def datastoreDown_def mask_defs backend_defs load_after_memcache_def
          load_after_request_def load_request_def load_memcache_def Let_def)
  have c2: "datastore_Get (NewKey ''Session'' (keyPrefix (aliceStore 4) @ ID emptySession)) ?wD2 =
              Inl datastoreDown \<and> datastoreDown \<noteq> ErrNoSuchEntity"
    by (simp add: fixture_defs expiredWorld_def memcacheDown_def datastoreDown_def backend_defs)
  have c: "fst (fst (load (aliceStore 4) emptySession ?wD)) = False \<and>
           snd (load (aliceStore 4) emptySession ?wD) =
             (emptySession, logf (Errorf ''Could not load session: %s'' datastoreDown) ?wD2)"
    using backend_failure_aborts_cascade
      [of "aliceStore 4" ?wD datastoreDown emptySession None ?wD2] ds4 c1 c2
    by blast
  have d0: "memcacheDeleteErr ?wX = Some memcacheDown \<and> memcacheDown \<noteq> ErrCacheMiss"
    by (simp add: fixture_defs expiredWorld_def memcacheDown_def datastoreDown_def)
  have d: "datastore (snd (delete (aliceStore 6) aliceSession ?wX)) = datastore ?wX"
    using backend_failure_aborts_cascade [of "aliceStore 6" ?wX memcacheDown aliceSession] mc6 d0
    by blast
  have e: "fst (delete (aliceStore 4) aliceSession ?wE) = None"
    using backend_failure_aborts_cascade [of "aliceStore 4" ?wE datastoreDown aliceSession] ds4
    by simp
  from a b c d e show ?thesis
    by (simp add: fixture_defs expiredWorld_def memcacheDown_def datastoreDown_def logf_def)
qed

end
